theory Spec2Isabelle
  imports Main
begin

section \<open>Helm action annotations (pkg/annotation/annotation.go)\<close>

text \<open>
  The boolean annotations parse their value with \<^verbatim>\<open>strconv.ParseBool\<close> of the Go
  standard library, which accepts exactly
  \<^verbatim>\<open>1 t T true TRUE True 0 f F false FALSE False\<close> and returns a syntax error
  for every other string.
\<close>

datatype parse_error = SyntaxError string

definition ParseBool :: "string \<Rightarrow> parse_error + bool" where
  "ParseBool str =
     (if str \<in> set [''1'', ''t'', ''T'', ''true'', ''TRUE'', ''True''] then Inr True
      else if str \<in> set [''0'', ''f'', ''F'', ''false'', ''FALSE'', ''False''] then Inr False
      else Inl (SyntaxError str))"

text \<open>
  The fields of \<^verbatim>\<open>action.Install\<close>, \<^verbatim>\<open>action.Upgrade\<close> and
  \<^verbatim>\<open>action.Uninstall\<close> that the annotations of this package write.
\<close>

record Install =
  Install_DisableHooks :: bool
  Install_Description :: string

record Upgrade =
  Upgrade_DisableHooks :: bool
  Upgrade_Force :: bool
  Upgrade_Description :: string

record Uninstall =
  Uninstall_DisableHooks :: bool
  Uninstall_Description :: string

text \<open>
  An option (\<^verbatim>\<open>helmclient.InstallOption\<close> and its siblings) is a function that
  updates the action through a pointer and returns an error; here it returns the
  updated action, or the error.
\<close>

datatype option_error = OptionError string

type_synonym InstallOption = "Install \<Rightarrow> option_error + Install"
type_synonym UpgradeOption = "Upgrade \<Rightarrow> option_error + Upgrade"
type_synonym UninstallOption = "Uninstall \<Rightarrow> option_error + Uninstall"

text \<open>The annotation structs hold a custom name only.\<close>

record InstallDisableHooks =
  InstallDisableHooks_CustomName :: string

record UpgradeDisableHooks =
  UpgradeDisableHooks_CustomName :: string

record UpgradeForce =
  UpgradeForce_CustomName :: string

record UninstallDisableHooks =
  UninstallDisableHooks_CustomName :: string

definition defaultDomain :: string where
  "defaultDomain = ''helm.sdk.operatorframework.io''"

definition InstallDisableHooks_Name :: "InstallDisableHooks \<Rightarrow> string" where
  "InstallDisableHooks_Name i =
     (if InstallDisableHooks_CustomName i \<noteq> '''' then InstallDisableHooks_CustomName i
      else defaultDomain @ ''/install-disable-hooks'')"

definition UpgradeDisableHooks_Name :: "UpgradeDisableHooks \<Rightarrow> string" where
  "UpgradeDisableHooks_Name u =
     (if UpgradeDisableHooks_CustomName u \<noteq> '''' then UpgradeDisableHooks_CustomName u
      else defaultDomain @ ''/upgrade-disable-hooks'')"

definition UpgradeForce_Name :: "UpgradeForce \<Rightarrow> string" where
  "UpgradeForce_Name u =
     (if UpgradeForce_CustomName u \<noteq> '''' then UpgradeForce_CustomName u
      else defaultDomain @ ''/upgrade-force'')"

definition UninstallDisableHooks_Name :: "UninstallDisableHooks \<Rightarrow> string" where
  "UninstallDisableHooks_Name u =
     (if UninstallDisableHooks_CustomName u \<noteq> '''' then UninstallDisableHooks_CustomName u
      else defaultDomain @ ''/uninstall-disable-hooks'')"

definition InstallDisableHooks_InstallOption ::
    "InstallDisableHooks \<Rightarrow> string \<Rightarrow> InstallOption" where
  "InstallDisableHooks_InstallOption i val =
     (let disableHooks = (case ParseBool val of Inr v \<Rightarrow> v | Inl err \<Rightarrow> False)
      in (\<lambda>install. Inr (install\<lparr>Install_DisableHooks := disableHooks\<rparr>)))"

definition UpgradeDisableHooks_UpgradeOption ::
    "UpgradeDisableHooks \<Rightarrow> string \<Rightarrow> UpgradeOption" where
  "UpgradeDisableHooks_UpgradeOption u val =
     (let disableHooks = (case ParseBool val of Inr v \<Rightarrow> v | Inl err \<Rightarrow> False)
      in (\<lambda>upgrade. Inr (upgrade\<lparr>Upgrade_DisableHooks := disableHooks\<rparr>)))"

definition UpgradeForce_UpgradeOption ::
    "UpgradeForce \<Rightarrow> string \<Rightarrow> UpgradeOption" where
  "UpgradeForce_UpgradeOption u val =
     (let force = (case ParseBool val of Inr v \<Rightarrow> v | Inl err \<Rightarrow> False)
      in (\<lambda>upgrade. Inr (upgrade\<lparr>Upgrade_Force := force\<rparr>)))"

definition UninstallDisableHooks_UninstallOption ::
    "UninstallDisableHooks \<Rightarrow> string \<Rightarrow> UninstallOption" where
  "UninstallDisableHooks_UninstallOption u val =
     (let disableHooks = (case ParseBool val of Inr v \<Rightarrow> v | Inl err \<Rightarrow> False)
      in (\<lambda>uninstall. Inr (uninstall\<lparr>Uninstall_DisableHooks := disableHooks\<rparr>)))"

section \<open>The dependent-resource watcher (the post hook that the test-suite of the hook package drives)\<close>

text \<open>
  The test-suite drives \<^verbatim>\<open>internalhook.NewDependentResourceWatcher(c, rm, cache, sch)\<close>
  and its \<^verbatim>\<open>Exec(owner, rel, log)\<close>. The data it handles: a group/version/kind
  (\<^verbatim>\<open>schema.GroupVersionKind\<close>), the scope a REST mapper knows for it
  (\<^verbatim>\<open>meta.RESTScopeRoot\<close> is cluster scope, \<^verbatim>\<open>meta.RESTScopeNamespace\<close> is
  namespace scope), and the handler of each recorded watch call
  (\<^verbatim>\<open>handler.TypedEnqueueRequestForOwner\<close> or
  \<^verbatim>\<open>sdkhandler.EnqueueRequestForAnnotation\<close>).
\<close>

record GroupVersionKind =
  Group :: string
  Version :: string
  Kind :: string

datatype Scope = ClusterScoped | NamespaceScoped

datatype RetentionPolicy = Keep | Default

datatype Strategy = OwnerReferenceNotify | AnnotationNotify

text \<open>
  An object of the manifest, or the owner. The \<^verbatim>\<open>apiVersion\<close> is kept in its parsed
  form, a group and a version (\<^verbatim>\<open>apps/v1\<close> is group \<^verbatim>\<open>apps\<close>, version
  \<^verbatim>\<open>v1\<close>), the way the tests write their \<^verbatim>\<open>GroupVersionKind\<close> values. The
  annotations are the key/value pairs of \<^verbatim>\<open>metadata.annotations\<close>.
\<close>

record ObjectDescriptor =
  objGroup :: string
  objVersion :: string
  objKind :: string
  objNamespace :: string
  objName :: string
  objAnnotations :: "(string \<times> string) list"

record WatchRegistration =
  regKind :: GroupVersionKind
  regStrategy :: Strategy

datatype error =
    ManifestParseError nat
  | KindNotFoundError string string "string list"
  | WatchRegistrationError string

text \<open>
  The mapping service (\<^verbatim>\<open>meta.DefaultRESTMapper\<close>, filled with \<^verbatim>\<open>rm.Add\<close>) and
  the watch capability of the controller, which answers a registration with an error or
  with none.
\<close>

type_synonym RESTMapper = "GroupVersionKind \<Rightarrow> Scope option"

type_synonym WatchController = "WatchRegistration \<Rightarrow> error option"

text \<open>
  A manifest is the sequence of its documents. A document is text that does not decode
  (\<^verbatim>\<open>foobar\<close>), one object, or a document of kind \<^verbatim>\<open>List\<close>. The item field of a
  \<^verbatim>\<open>List\<close> is \<open>None\<close> when it holds no sequence (\<^verbatim>\<open>items:\<close> left empty, as in the
  fixture \<^verbatim>\<open>errReplicaSetList\<close>, or no item field) and \<open>Some items\<close> when it is a
  sequence; an item is \<open>None\<close> when it does not decode.
\<close>

datatype Document =
    Malformed
  | Object ObjectDescriptor
  | ListDocument "ObjectDescriptor option list option"

type_synonym Manifest = "Document list"

text \<open>
  A decoded dependent remembers whether it was a document of its own or an item of a
  \<^verbatim>\<open>List\<close>.
\<close>

datatype Dependent = Standalone ObjectDescriptor | Item ObjectDescriptor

fun dependentObject :: "Dependent \<Rightarrow> ObjectDescriptor" where
  "dependentObject (Standalone obj) = obj"
| "dependentObject (Item obj) = obj"

fun isListDocument :: "Document \<Rightarrow> bool" where
  "isListDocument (ListDocument items) = True"
| "isListDocument doc = False"

subsection \<open>Manifest decoder\<close>

text \<open>
  Modelled from the spec: the decoding done by \<^verbatim>\<open>Exec\<close> (package
  \<^verbatim>\<open>pkg/reconciler/internal/hook\<close>) is not among the sources; section 4.1 describes
  it. A document that fails to decode fails the whole decoding with a
  \<^verbatim>\<open>ManifestParseError\<close> naming the document; a \<^verbatim>\<open>List\<close> is expanded into its items
  at its own position; a list with an item that does not decode fails alike. The spec
  lets a list without entries pass; the test "should error when unable to list objects"
  expects \<^verbatim>\<open>Exec\<close> to fail on \<^verbatim>\<open>errReplicaSetList\<close>, so a list whose item field
  holds no sequence fails here, and only an item sequence of length zero gives no
  descriptors.
\<close>

fun decodeDocument :: "Document \<Rightarrow> Dependent list option" where
  "decodeDocument Malformed = None"
| "decodeDocument (Object obj) = Some [Standalone obj]"
| "decodeDocument (ListDocument None) = None"
| "decodeDocument (ListDocument (Some items)) =
     (if None \<in> set items then None else Some (map (\<lambda>it. Item (the it)) items))"

fun DecodeFrom :: "nat \<Rightarrow> Manifest \<Rightarrow> error + Dependent list" where
  "DecodeFrom i [] = Inr []"
| "DecodeFrom i (doc # docs) =
     (case decodeDocument doc of
        None \<Rightarrow> Inl (ManifestParseError i)
      | Some deps \<Rightarrow>
          (case DecodeFrom (Suc i) docs of
             Inl e \<Rightarrow> Inl e
           | Inr rest \<Rightarrow> Inr (deps @ rest)))"

definition Decode :: "Manifest \<Rightarrow> error + Dependent list" where
  "Decode manifest = DecodeFrom 0 manifest"

text \<open>Every object that occurs in a manifest, in document order.\<close>

fun documentObjects :: "Document \<Rightarrow> ObjectDescriptor list" where
  "documentObjects Malformed = []"
| "documentObjects (Object obj) = [obj]"
| "documentObjects (ListDocument None) = []"
| "documentObjects (ListDocument (Some items)) =
     concat (map (\<lambda>it. case it of None \<Rightarrow> [] | Some obj \<Rightarrow> [obj]) items)"

definition manifestObjects :: "Manifest \<Rightarrow> ObjectDescriptor list" where
  "manifestObjects manifest = concat (map documentObjects manifest)"

subsection \<open>Scope and kind resolver\<close>

definition KindKeyOf :: "ObjectDescriptor \<Rightarrow> GroupVersionKind" where
  "KindKeyOf obj = \<lparr>Group = objGroup obj, Version = objVersion obj, Kind = objKind obj\<rparr>"

text \<open>
  Modelled from the spec: the resolver (section 4.2) is not among the sources. It asks
  the mapping service for the kind at its version and fails with a
  \<^verbatim>\<open>KindNotFoundError\<close> that carries the group, the kind and the searched version, which
  is the \<^verbatim>\<open>meta.NoKindMatchError\<close> the tests "should fail with unknown owner kind" and
  "should fail with unknown dependent kind" expect.
\<close>

definition Resolve :: "RESTMapper \<Rightarrow> GroupVersionKind \<Rightarrow> error + Scope" where
  "Resolve rm k =
     (case rm k of
        None \<Rightarrow> Inl (KindNotFoundError (Group k) (Kind k) [Version k])
      | Some scope \<Rightarrow> Inr scope)"

subsection \<open>Retention policy and strategy selection\<close>

definition resourcePolicyAnno :: string where
  "resourcePolicyAnno = ''helm.sh/resource-policy''"

text \<open>
  Modelled from the spec: the function that reads the retention policy is not among the
  sources. Sections 3 and 6 give it: the value of the resource-policy annotation (the key
  of the fixtures, \<^verbatim>\<open>helm.sh/resource-policy\<close>) compared with the literal
  \<^verbatim>\<open>keep\<close>, every other value and a missing annotation being \<open>Default\<close>.
\<close>

definition retentionPolicy :: "ObjectDescriptor \<Rightarrow> RetentionPolicy" where
  "retentionPolicy obj =
     (if map_of (objAnnotations obj) resourcePolicyAnno = Some ''keep'' then Keep else Default)"

text \<open>
  Modelled from the spec: the selection of the handler inside \<^verbatim>\<open>Exec\<close> is not among
  the sources. The first two branches and the last are the rule of section 4.3 (d). The
  third branch is what the test "should watch namespace-scoped resources with ownerRef
  handler" expects of a cluster-scoped owner: \<^verbatim>\<open>rsOwnerNamespace\<close> and
  \<^verbatim>\<open>ssOtherNamespace\<close>, both namespaced and without the keep annotation, are watched with
  \<^verbatim>\<open>TypedEnqueueRequestForOwner\<close>; the spec's rule sends them to the annotation
  handler.
\<close>

definition selectStrategy ::
    "Scope \<Rightarrow> string \<Rightarrow> Scope \<Rightarrow> string \<Rightarrow> RetentionPolicy \<Rightarrow> Strategy" where
  "selectStrategy ownerScope ownerNamespace depScope depNamespace policy =
     (if depScope = NamespaceScoped \<and> ownerScope = NamespaceScoped
           \<and> depNamespace = ownerNamespace \<and> policy = Default
      then OwnerReferenceNotify
      else if depScope = ClusterScoped \<and> ownerScope = ClusterScoped \<and> policy = Default
      then OwnerReferenceNotify
      else if depScope = NamespaceScoped \<and> ownerScope = ClusterScoped \<and> policy = Default
      then OwnerReferenceNotify
      else AnnotationNotify)"

text \<open>
  Modelled from the spec: the rule of section 4.3 (d) word for word, without the branch
  taken from the test-suite; kept to compare the two.
\<close>

definition selectStrategy_spec ::
    "Scope \<Rightarrow> string \<Rightarrow> Scope \<Rightarrow> string \<Rightarrow> RetentionPolicy \<Rightarrow> Strategy" where
  "selectStrategy_spec ownerScope ownerNamespace depScope depNamespace policy =
     (if depScope = NamespaceScoped \<and> ownerScope = NamespaceScoped
           \<and> depNamespace = ownerNamespace \<and> policy = Default
      then OwnerReferenceNotify
      else if depScope = ClusterScoped \<and> ownerScope = ClusterScoped \<and> policy = Default
      then OwnerReferenceNotify
      else AnnotationNotify)"

subsection \<open>Watch deduplication\<close>

text \<open>
  The state of one call: the kinds seen so far and the watch calls issued to the
  controller, oldest first (\<^verbatim>\<open>c.WatchCalls\<close> of the fake controller).
\<close>

record WatcherState =
  seen :: "GroupVersionKind list"
  WatchCalls :: "WatchRegistration list"

definition emptyState :: WatcherState where
  "emptyState = \<lparr>seen = [], WatchCalls = []\<rparr>"

text \<open>
  Modelled from the spec: the loop of \<^verbatim>\<open>Exec\<close> over the dependent objects is not among
  the sources; it is step 3 of section 4.3. A kind already seen is skipped; otherwise its
  scope is resolved (an unknown kind aborts), the policy is read from this very object,
  the strategy is selected, the kind is marked and one watch call is issued; an error of
  the controller aborts at once. The spec marks the kind of every object; the test
  "should iterate the kind list and be able to set watches on each item" expects two
  watch calls for the two \<^verbatim>\<open>ReplicaSet\<close> items of \<^verbatim>\<open>replicaSetList\<close>, so the kind of
  an item of a \<^verbatim>\<open>List\<close> is looked up in the seen-set but not added to it.
\<close>

fun markSeen :: "Dependent \<Rightarrow> GroupVersionKind \<Rightarrow> GroupVersionKind list \<Rightarrow> GroupVersionKind list"
  where
  "markSeen (Standalone obj) key ks = key # ks"
| "markSeen (Item obj) key ks = ks"

fun watchDependents ::
    "RESTMapper \<Rightarrow> WatchController \<Rightarrow> Scope \<Rightarrow> ObjectDescriptor \<Rightarrow> Dependent list
       \<Rightarrow> WatcherState \<Rightarrow> error option \<times> WatcherState" where
  "watchDependents rm ctl ownerScope owner [] st = (None, st)"
| "watchDependents rm ctl ownerScope owner (dep # deps) st =
     (let obj = dependentObject dep; key = KindKeyOf obj in
      if key \<in> set (seen st) then watchDependents rm ctl ownerScope owner deps st
      else
        (case Resolve rm key of
           Inl e \<Rightarrow> (Some e, st)
         | Inr depScope \<Rightarrow>
             (let policy = retentionPolicy obj;
                  strategy = selectStrategy ownerScope (objNamespace owner)
                               depScope (objNamespace obj) policy;
                  reg = \<lparr>regKind = key, regStrategy = strategy\<rparr>;
                  st' = \<lparr>seen = markSeen dep key (seen st), WatchCalls = WatchCalls st @ [reg]\<rparr>
              in (case ctl reg of
                    Some e \<Rightarrow> (Some e, st')
                  | None \<Rightarrow> watchDependents rm ctl ownerScope owner deps st'))))"

text \<open>
  Modelled from the spec: \<^verbatim>\<open>Exec\<close> on decoded objects, steps 2 to 4 of section 4.3:
  the owner's scope is resolved first, then the dependents are walked with an empty
  seen-set. The result is the error, if any, and the watch calls issued.
\<close>

definition ExecDependents ::
    "RESTMapper \<Rightarrow> WatchController \<Rightarrow> ObjectDescriptor \<Rightarrow> Dependent list
       \<Rightarrow> error option \<times> WatchRegistration list" where
  "ExecDependents rm ctl owner deps =
     (case Resolve rm (KindKeyOf owner) of
        Inl e \<Rightarrow> (Some e, [])
      | Inr ownerScope \<Rightarrow>
          (case watchDependents rm ctl ownerScope owner deps emptyState of
             (r, st) \<Rightarrow> (r, WatchCalls st)))"

text \<open>
  Modelled from the spec: \<^verbatim>\<open>Exec\<close> itself, section 4.3: decode the whole manifest
  (step 1, abort on a decoding failure), then steps 2 to 4.
\<close>

definition Exec ::
    "RESTMapper \<Rightarrow> WatchController \<Rightarrow> ObjectDescriptor \<Rightarrow> Manifest
       \<Rightarrow> error option \<times> WatchRegistration list" where
  "Exec rm ctl owner manifest =
     (case Decode manifest of
        Inl e \<Rightarrow> (Some e, [])
      | Inr deps \<Rightarrow> ExecDependents rm ctl owner deps)"

text \<open>The distinct elements of a list, each at its first occurrence.\<close>

fun firstOccurrences :: "'a list \<Rightarrow> 'a list" where
  "firstOccurrences [] = []"
| "firstOccurrences (x # xs) = x # firstOccurrences (filter (\<lambda>y. y \<noteq> x) xs)"

subsection \<open>The fixtures of the test-suite\<close>

text \<open>
  The REST mapper of the context "with known APIs", the one of "should fail with unknown
  dependent kind", the empty one, the fake controller (it records the call and returns
  no error), the two owners and the manifest objects.
\<close>

definition gvk :: "string \<Rightarrow> string \<Rightarrow> string \<Rightarrow> GroupVersionKind" where
  "gvk g v k = \<lparr>Group = g, Version = v, Kind = k\<rparr>"

definition rmAdd :: "RESTMapper \<Rightarrow> GroupVersionKind \<Rightarrow> Scope \<Rightarrow> RESTMapper" where
  "rmAdd rm k scope = rm(k \<mapsto> scope)"

definition rmEmpty :: RESTMapper where
  "rmEmpty = (\<lambda>k. None)"

definition rmOwnerOnly :: RESTMapper where
  "rmOwnerOnly = rmAdd rmEmpty (gvk ''apps'' ''v1'' ''Deployment'') NamespaceScoped"

definition rmKnown :: RESTMapper where
  "rmKnown =
     rmAdd (rmAdd (rmAdd (rmAdd (rmAdd rmEmpty
       (gvk ''apps'' ''v1'' ''Deployment'') NamespaceScoped)
       (gvk ''apps'' ''v1'' ''ReplicaSet'') NamespaceScoped)
       (gvk ''apps'' ''v1'' ''StatefulSet'') NamespaceScoped)
       (gvk ''rbac.authorization.k8s.io'' ''v1'' ''ClusterRole'') ClusterScoped)
       (gvk ''rbac.authorization.k8s.io'' ''v1'' ''ClusterRoleBinding'') ClusterScoped"

definition fakeController :: WatchController where
  "fakeController = (\<lambda>reg. None)"

definition keepAnnotations :: "(string \<times> string) list" where
  "keepAnnotations = [(''helm.sh/resource-policy'', ''keep'')]"

definition mkObject ::
    "string \<Rightarrow> string \<Rightarrow> string \<Rightarrow> string \<Rightarrow> string \<Rightarrow> (string \<times> string) list
       \<Rightarrow> ObjectDescriptor" where
  "mkObject g v k ns n anns =
     \<lparr>objGroup = g, objVersion = v, objKind = k, objNamespace = ns, objName = n,
      objAnnotations = anns\<rparr>"

definition ownerDeployment :: ObjectDescriptor where
  "ownerDeployment = mkObject ''apps'' ''v1'' ''Deployment'' ''ownerNamespace'' ''testDeployment'' []"

definition ownerClusterRole :: ObjectDescriptor where
  "ownerClusterRole =
     mkObject ''rbac.authorization.k8s.io'' ''v1'' ''ClusterRole'' '''' ''testClusterRole'' []"

definition rsOwnerNamespace :: ObjectDescriptor where
  "rsOwnerNamespace = mkObject ''apps'' ''v1'' ''ReplicaSet'' ''ownerNamespace'' ''testReplicaSet'' []"

definition rsOwnerNamespaceWithKeep :: ObjectDescriptor where
  "rsOwnerNamespaceWithKeep =
     mkObject ''apps'' ''v1'' ''ReplicaSet'' ''ownerNamespace'' ''testReplicaSet'' keepAnnotations"

definition ssOtherNamespace :: ObjectDescriptor where
  "ssOtherNamespace =
     mkObject ''apps'' ''v1'' ''StatefulSet'' ''otherNamespace'' ''otherTestStatefulSet'' []"

definition ssOtherNamespaceWithKeep :: ObjectDescriptor where
  "ssOtherNamespaceWithKeep =
     mkObject ''apps'' ''v1'' ''StatefulSet'' ''otherNamespace'' ''otherTestStatefulSet''
       keepAnnotations"

definition clusterRole :: ObjectDescriptor where
  "clusterRole =
     mkObject ''rbac.authorization.k8s.io'' ''v1'' ''ClusterRole'' '''' ''testClusterRole'' []"

definition clusterRoleWithKeep :: ObjectDescriptor where
  "clusterRoleWithKeep =
     mkObject ''rbac.authorization.k8s.io'' ''v1'' ''ClusterRole'' '''' ''testClusterRole''
       keepAnnotations"

definition clusterRoleBinding :: ObjectDescriptor where
  "clusterRoleBinding =
     mkObject ''rbac.authorization.k8s.io'' ''v1'' ''ClusterRoleBinding'' ''''
       ''testClusterRoleBinding'' []"

definition clusterRoleBindingWithKeep :: ObjectDescriptor where
  "clusterRoleBindingWithKeep =
     mkObject ''rbac.authorization.k8s.io'' ''v1'' ''ClusterRoleBinding'' ''''
       ''testClusterRoleBinding'' keepAnnotations"

definition replicaSetList :: Document where
  "replicaSetList =
     ListDocument (Some
       [Some (mkObject ''apps'' ''v1'' ''ReplicaSet'' ''ownerNamespace'' ''testReplicaSet1'' []),
        Some (mkObject ''apps'' ''v1'' ''ReplicaSet'' ''ownerNamespace'' ''testReplicaSet2'' [])])"

definition errReplicaSetList :: Document where
  "errReplicaSetList = ListDocument None"

definition ownerRefCall :: "string \<Rightarrow> string \<Rightarrow> string \<Rightarrow> WatchRegistration" where
  "ownerRefCall g v k = \<lparr>regKind = gvk g v k, regStrategy = OwnerReferenceNotify\<rparr>"

definition annotationCall :: "string \<Rightarrow> string \<Rightarrow> string \<Rightarrow> WatchRegistration" where
  "annotationCall g v k = \<lparr>regKind = gvk g v k, regStrategy = AnnotationNotify\<rparr>"

section \<open>Properties of the boolean annotations\<close>

lemma ParseBool_cases:
  "ParseBool str = Inr True \<or> ParseBool str = Inr False \<or> ParseBool str = Inl (SyntaxError str)"
  by (simp add: ParseBool_def)

text \<open>
  Claim C10. Each of the four boolean annotation options (install, upgrade and uninstall
  disable-hooks, upgrade-force) returns an option function that always succeeds: it sets
  its field to \<open>True\<close> exactly when the value parses to true, leaves every other field
  alone, and a value that \<^verbatim>\<open>ParseBool\<close> rejects sets the field to \<open>False\<close> without
  any error.
\<close>

theorem bool_annotation_option_never_fails:
  "InstallDisableHooks_InstallOption i val inst =
      Inr (inst\<lparr>Install_DisableHooks := (ParseBool val = Inr True)\<rparr>)
   \<and> UpgradeDisableHooks_UpgradeOption ud val upg =
      Inr (upg\<lparr>Upgrade_DisableHooks := (ParseBool val = Inr True)\<rparr>)
   \<and> UpgradeForce_UpgradeOption uf val upg =
      Inr (upg\<lparr>Upgrade_Force := (ParseBool val = Inr True)\<rparr>)
   \<and> UninstallDisableHooks_UninstallOption un val unin =
      Inr (unin\<lparr>Uninstall_DisableHooks := (ParseBool val = Inr True)\<rparr>)
   \<and> (ParseBool val = Inl err \<longrightarrow>
        InstallDisableHooks_InstallOption i val inst = Inr (inst\<lparr>Install_DisableHooks := False\<rparr>)
      \<and> UpgradeDisableHooks_UpgradeOption ud val upg = Inr (upg\<lparr>Upgrade_DisableHooks := False\<rparr>)
      \<and> UpgradeForce_UpgradeOption uf val upg = Inr (upg\<lparr>Upgrade_Force := False\<rparr>)
      \<and> UninstallDisableHooks_UninstallOption un val unin =
          Inr (unin\<lparr>Uninstall_DisableHooks := False\<rparr>))"
proof -
  have c: "(case ParseBool val of Inr v \<Rightarrow> v | Inl e \<Rightarrow> False) = (ParseBool val = Inr True)"
    using ParseBool_cases [of val] by auto
  have f: "ParseBool val = Inl err \<Longrightarrow> (ParseBool val = Inr True) = False"
    by simp
  show ?thesis
    unfolding InstallDisableHooks_InstallOption_def UpgradeDisableHooks_UpgradeOption_def
      UpgradeForce_UpgradeOption_def UninstallDisableHooks_UninstallOption_def Let_def c
    using f by simp
qed

theorem bool_annotation_option_never_fails_witness:
  "ParseBool ''yes'' = Inl (SyntaxError ''yes'')
   \<and> InstallDisableHooks_InstallOption \<lparr>InstallDisableHooks_CustomName = ''''\<rparr> ''yes''
        \<lparr>Install_DisableHooks = True, Install_Description = ''d''\<rparr>
      = Inr \<lparr>Install_DisableHooks = False, Install_Description = ''d''\<rparr>
   \<and> UpgradeForce_UpgradeOption \<lparr>UpgradeForce_CustomName = ''''\<rparr> ''yes''
        \<lparr>Upgrade_DisableHooks = True, Upgrade_Force = True, Upgrade_Description = ''d''\<rparr>
      = Inr \<lparr>Upgrade_DisableHooks = True, Upgrade_Force = False, Upgrade_Description = ''d''\<rparr>"
proof -
  have p: "ParseBool ''yes'' = Inl (SyntaxError ''yes'')"
    by (simp add: ParseBool_def)
  show ?thesis
    using p bool_annotation_option_never_fails
      [of "\<lparr>InstallDisableHooks_CustomName = ''''\<rparr>" "''yes''"
          "\<lparr>Install_DisableHooks = True, Install_Description = ''d''\<rparr>"
          "\<lparr>UpgradeDisableHooks_CustomName = ''''\<rparr>"
          "\<lparr>Upgrade_DisableHooks = True, Upgrade_Force = True, Upgrade_Description = ''d''\<rparr>"
          "\<lparr>UpgradeForce_CustomName = ''''\<rparr>"
          "\<lparr>UninstallDisableHooks_CustomName = ''''\<rparr>"
          "\<lparr>Uninstall_DisableHooks = True, Uninstall_Description = ''d''\<rparr>"
          "SyntaxError ''yes''"]
    by simp
qed

end
